theory Spec2Isabelle
  imports Complex_Main
begin

section \<open>Python strings\<close>

text \<open>
  Texts are modelled as \<^typ>\<open>string\<close> restricted to ASCII: \<open>str.lower\<close> maps
  \<open>A-Z\<close> to \<open>a-z\<close>, the regular-expression classes \<open>\d\<close>, \<open>\s\<close> and
  \<open>\w\<close> are their ASCII parts. Python floats are modelled as reals.
\<close>

definition lower_char :: "char \<Rightarrow> char" where
  "lower_char c =
     (let n = (of_char c :: nat) in if 65 \<le> n \<and> n \<le> 90 then char_of (n + 32) else c)"

definition lower :: "string \<Rightarrow> string" where
  "lower s = map lower_char s"

definition is_digit :: "char \<Rightarrow> bool" where
  "is_digit c = (let n = (of_char c :: nat) in 48 \<le> n \<and> n \<le> 57)"

definition is_space :: "char \<Rightarrow> bool" where
  "is_space c = (let n = (of_char c :: nat) in (9 \<le> n \<and> n \<le> 13) \<or> (28 \<le> n \<and> n \<le> 32))"

definition is_word_char :: "char \<Rightarrow> bool" where
  "is_word_char c =
     (let n = (of_char c :: nat)
      in (48 \<le> n \<and> n \<le> 57) \<or> (65 \<le> n \<and> n \<le> 90) \<or> n = 95 \<or> (97 \<le> n \<and> n \<le> 122))"

text \<open>\<open>s.startswith(p)\<close>, \<open>s.endswith(p)\<close> and \<open>sub in s\<close>.\<close>

fun starts_with :: "string \<Rightarrow> string \<Rightarrow> bool" where
  "starts_with s [] = True"
| "starts_with [] (p # ps) = False"
| "starts_with (c # cs) (p # ps) = (c = p \<and> starts_with cs ps)"


fun contains :: "string \<Rightarrow> string \<Rightarrow> bool" where
  "contains [] sub = (sub = [])"
| "contains (c # cs) sub = (starts_with (c # cs) sub \<or> contains cs sub)"

text \<open>\<open>int(ds)\<close> on a string of decimal digits.\<close>

definition digit_value :: "char \<Rightarrow> nat" where
  "digit_value c = of_char c - 48"

definition int_of_digits :: "string \<Rightarrow> int" where
  "int_of_digits ds = int (foldl (\<lambda>a c. 10 * a + digit_value c) 0 ds)"

text \<open>
  \<open>re.findall(r'\b\w+\b', s)\<close>: the maximal runs of word characters of \<open>s\<close>, from
  left to right. The first argument is the run being read.
\<close>

fun word_runs :: "string \<Rightarrow> string \<Rightarrow> string list" where
  "word_runs run [] = (if run = [] then [] else [run])"
| "word_runs run (c # cs) =
     (if is_word_char c then word_runs (run @ [c]) cs
      else (if run = [] then [] else [run]) @ word_runs [] cs)"

definition findall_words :: "string \<Rightarrow> string list" where
  "findall_words s = word_runs [] s"

section \<open>Similarity backend\<close>

datatype py_error = ZeroDivisionError | BackendError

text \<open>
  \<open>self.model\<close>: \<open>None\<close> in fallback mode, otherwise the embedding model. The model
  is seen through what lines 96-100 compute with it: both texts are encoded and
  \<open>util.pytorch_cos_sim(...).item()\<close> is taken; \<open>Inl\<close> when any of these raises.
\<close>

type_synonym backend = "string \<Rightarrow> string \<Rightarrow> py_error + real"

text \<open>
  \<^verbatim>\<open>MPNetResumeMatcher.calculate_semantic_similarity\<close>. The division of the
  fallback path is written with its \<open>ZeroDivisionError\<close>; the \<open>try/except\<close> of the
  embedding path turns every error into 0.8.
\<close>

definition calculate_semantic_similarity ::
  "backend option \<Rightarrow> string \<Rightarrow> string \<Rightarrow> py_error + real" where
  "calculate_semantic_similarity model text1 text2 =
     (if text1 = [] \<or> text2 = [] then Inr 0.8
      else case model of
        None \<Rightarrow>
          (let words1 = set (findall_words (lower text1));
               words2 = set (findall_words (lower text2))
           in if words1 = {} \<or> words2 = {} then Inr 0.8
              else
                (let overlap = card (words1 \<inter> words2);
                     denominator = int (card words1) + int (card words2) - int overlap
                 in if denominator = 0 then Inl ZeroDivisionError
                    else
                      (let similarity = real overlap / real_of_int denominator
                       in Inr (min (0.75 + similarity * 0.25) 1.0))))
      | Some m \<Rightarrow>
          (case m text1 text2 of
             Inr similarity \<Rightarrow> Inr (min (0.75 + similarity * 0.25) 1.0)
           | Inl e \<Rightarrow> Inr 0.8))"

text \<open>
  The float a caller of \<open>calculate_semantic_similarity\<close> receives. The call never
  raises (\<open>calculate_semantic_similarity_returns\<close> below), so the \<open>Inl\<close> branch is
  never taken.
\<close>

definition similarity :: "backend option \<Rightarrow> string \<Rightarrow> string \<Rightarrow> real" where
  "similarity model text1 text2 =
     (case calculate_semantic_similarity model text1 text2 of Inr s \<Rightarrow> s | Inl e \<Rightarrow> 0)"

section \<open>Skills axis\<close>

record skills_match =
  score :: real
  direct_matches :: "string list"
  semantic_matches :: "(string \<times> string option \<times> real) list"
  missing_skills :: "string list"

text \<open>Lines 143-152: the inner loop over the resume skills, from \<open>(None, 0)\<close>.\<close>

fun best_resume_skill ::
  "backend option \<Rightarrow> string \<Rightarrow> string list \<Rightarrow> string option \<times> real \<Rightarrow> string option \<times> real" where
  "best_resume_skill model job_skill [] best = best"
| "best_resume_skill model job_skill (resume_skill # rest) (best_match, best_score) =
     (let sim = similarity model job_skill resume_skill
      in if sim > best_score
         then best_resume_skill model job_skill rest (Some resume_skill, sim)
         else best_resume_skill model job_skill rest (best_match, best_score))"

text \<open>Lines 138-157: the loop over the job skills that builds \<open>semantic_matches\<close>.\<close>

fun find_semantic_matches ::
  "backend option \<Rightarrow> string list \<Rightarrow> string list \<Rightarrow> string list
     \<Rightarrow> (string \<times> string option \<times> real) list" where
  "find_semantic_matches model resume_skills_lower direct [] = []"
| "find_semantic_matches model resume_skills_lower direct (job_skill # rest) =
     (if job_skill \<in> set direct
      then find_semantic_matches model resume_skills_lower direct rest
      else
        (let best = best_resume_skill model job_skill resume_skills_lower (None, 0)
         in if snd best \<ge> 0.6
            then (job_skill, fst best, snd best)
                   # find_semantic_matches model resume_skills_lower direct rest
            else find_semantic_matches model resume_skills_lower direct rest))"

text \<open>\<^verbatim>\<open>MPNetResumeMatcher.calculate_skills_match\<close>.\<close>

definition calculate_skills_match ::
  "backend option \<Rightarrow> string list \<Rightarrow> string list \<Rightarrow> skills_match" where
  "calculate_skills_match model resume_skills job_skills =
     (if job_skills = []
      then \<lparr>score = 1.0, direct_matches = [], semantic_matches = [], missing_skills = []\<rparr>
      else
        (let resume_skills_lower = map lower resume_skills;
             job_skills_lower = map lower job_skills;
             direct = filter (\<lambda>job_skill. job_skill \<in> set resume_skills_lower) job_skills_lower;
             semantic = find_semantic_matches model resume_skills_lower direct job_skills_lower;
             missing =
               filter
                 (\<lambda>job_skill. job_skill \<notin> set direct
                    \<and> \<not> list_ex (\<lambda>match. job_skill = fst match) semantic)
                 job_skills_lower;
             direct_match_count = real (length direct);
             semantic_match_count = sum_list (map (\<lambda>match. snd (snd match)) semantic);
             total_match_score =
               (if length job_skills > 0
                then 0.8 + ((direct_match_count + semantic_match_count)
                              / real (length job_skills)) * 0.2
                else 1.0)
         in \<lparr>score = min 1.0 total_match_score, direct_matches = direct,
              semantic_matches = semantic, missing_skills = missing\<rparr>))"

section \<open>Experience axis\<close>

text \<open>
  \<^verbatim>\<open>MPNetResumeMatcher.calculate_experience_match\<close>, lines 264-276: the step
  function from the estimated years (an int or a float) and the required years to the
  axis score.
\<close>

definition experience_score :: "real \<Rightarrow> real \<Rightarrow> real" where
  "experience_score estimated_years required_years =
     (if estimated_years \<ge> required_years then 1.0
      else if estimated_years \<ge> required_years * 0.7 then 0.95
      else if estimated_years \<ge> required_years * 0.5 then 0.9
      else if estimated_years \<ge> required_years * 0.3 then 0.85
      else if estimated_years > 0 then 0.8
      else 0.75)"

section \<open>Aggregation and calibration\<close>









section \<open>Job requirements parser\<close>

text \<open>
  The pattern of \<^verbatim>\<open>JobRequirementsParser.extract_years_of_experience\<close> is
  \<^verbatim>\<open>(\d+)(?:\+|\s*\-\s*\d+)?\s*(?:years|year|yrs|yr)\<close>. The functions below are
  this pattern piece by piece. Each greedy run (\<open>\d+\<close>, \<open>\s*\<close>) is taken whole:
  giving back a character of a run leaves a digit or a space where the rest of the
  pattern needs another character, so backtracking into a run never finds a match.
\<close>

text \<open>\<open>(?:years|year|yrs|yr)\<close> at the head of the text.\<close>

definition unit_here :: "string \<Rightarrow> bool" where
  "unit_here s =
     (starts_with s ''years'' \<or> starts_with s ''year''
      \<or> starts_with s ''yrs'' \<or> starts_with s ''yr'')"

text \<open>\<open>\s*(?:years|year|yrs|yr)\<close> at the head of the text.\<close>

definition tail_here :: "string \<Rightarrow> bool" where
  "tail_here s = unit_here (dropWhile is_space s)"

text \<open>\<open>\s*\-\s*\d+\<close> at the head of the text: what follows it, when it matches.\<close>

definition range_here :: "string \<Rightarrow> string option" where
  "range_here s =
     (case dropWhile is_space s of
        [] \<Rightarrow> None
      | c # r \<Rightarrow>
          if c = CHR ''-''
          then (let r' = dropWhile is_space r
                in if takeWhile is_digit r' = [] then None
                   else Some (dropWhile is_digit r'))
          else None)"

text \<open>The whole pattern at the head of the text: group 1 of the match, if any.\<close>

definition years_match_here :: "string \<Rightarrow> string option" where
  "years_match_here s =
     (let ds = takeWhile is_digit s; r = dropWhile is_digit s
      in if ds = [] then None
         else if (case r of [] \<Rightarrow> False | c # r' \<Rightarrow> c = CHR ''+'' \<and> tail_here r') then Some ds
         else if (case range_here r of None \<Rightarrow> False | Some r' \<Rightarrow> tail_here r') then Some ds
         else if tail_here r then Some ds
         else None)"

text \<open>\<open>pattern.search\<close>: the match at the leftmost position that has one.\<close>

fun years_search :: "string \<Rightarrow> string option" where
  "years_search [] = None"
| "years_search (c # cs) =
     (case years_match_here (c # cs) of
        Some ds \<Rightarrow> Some ds
      | None \<Rightarrow> years_search cs)"

text \<open>\<^verbatim>\<open>JobRequirementsParser.extract_years_of_experience\<close>.\<close>

definition extract_years_of_experience :: "string \<Rightarrow> int" where
  "extract_years_of_experience text =
     (case years_search (lower text) of
        Some ds \<Rightarrow> int_of_digits ds
      | None \<Rightarrow>
          if contains (lower text) ''entry level'' \<or> contains (lower text) ''junior'' then 0
          else if contains (lower text) ''mid level'' \<or> contains (lower text) ''intermediate''
          then 2
          else if contains (lower text) ''senior'' \<or> contains (lower text) ''experienced''
          then 5
          else 0)"

text \<open>\<^verbatim>\<open>JobRequirementsParser.extract_education_level\<close>.\<close>

definition extract_education_level :: "string \<Rightarrow> string" where
  "extract_education_level text =
     (let text_lower = lower text
      in if contains text_lower ''bachelor'' \<or> contains text_lower ''b.s.''
            \<or> contains text_lower ''b.a.'' \<or> contains text_lower ''undergraduate''
         then ''bachelor''
         else if contains text_lower ''master'' \<or> contains text_lower ''m.s.''
            \<or> contains text_lower ''m.a.'' \<or> contains text_lower ''graduate''
         then ''master''
         else if contains text_lower ''phd'' \<or> contains text_lower ''ph.d''
            \<or> contains text_lower ''doctorate''
         then ''phd''
         else [])"

text \<open>
  The loaded job record: a field is \<open>None\<close> when its key is absent from the JSON
  object.
\<close>

record job_data =
  job_title :: "string option"
  company :: "string option"
  job_skills :: "string option"
  job_requirements :: "string list option"
  description :: "string option"

text \<open>
  \<^verbatim>\<open>JobRequirementsParser.parse_job_requirements\<close>, lines 257-260: the loop
  over the requirement lines, with the value of \<open>required_experience_years\<close> so far.
\<close>

fun years_loop :: "string list \<Rightarrow> int \<Rightarrow> int" where
  "years_loop [] required_experience_years = required_experience_years"
| "years_loop (req # reqs) required_experience_years =
     (let years = extract_years_of_experience req
      in if years > required_experience_years
         then years_loop reqs years
         else years_loop reqs required_experience_years)"

text \<open>
  Lines 265-275: the loop over the requirement lines, with the value of
  \<open>required_education\<close> so far; \<open>break\<close> returns at once.
\<close>

fun education_loop :: "string list \<Rightarrow> string \<Rightarrow> string" where
  "education_loop [] required_education = required_education"
| "education_loop (req # reqs) required_education =
     (let education = extract_education_level req
      in if education \<noteq> []
         then (if education = ''phd'' then ''phd''
               else if education = ''master'' \<and> required_education \<noteq> ''phd''
               then education_loop reqs ''master''
               else if education = ''bachelor''
                       \<and> required_education \<notin> set [''phd'', ''master'']
               then education_loop reqs ''bachelor''
               else education_loop reqs required_education)
         else education_loop reqs required_education)"

record job_profile =
  profile_title :: string
  profile_company :: string
  required_experience_years :: int
  required_education :: string
  full_description :: string

text \<open>
  \<^verbatim>\<open>JobRequirementsParser.parse_job_requirements\<close> on the loaded record
  (\<open>None\<close>: the load failed or gave an empty object). The skill list and the
  categorised requirements of the profile are left out.
\<close>

definition parse_job_requirements :: "job_data option \<Rightarrow> job_profile" where
  "parse_job_requirements loaded =
     (case loaded of
        None \<Rightarrow>
          \<lparr>profile_title = [], profile_company = [], required_experience_years = 0,
           required_education = [], full_description = []\<rparr>
      | Some job \<Rightarrow>
          \<lparr>profile_title = (case job_title job of None \<Rightarrow> [] | Some t \<Rightarrow> t),
           profile_company = (case company job of None \<Rightarrow> [] | Some c \<Rightarrow> c),
           required_experience_years =
             (case job_requirements job of
                None \<Rightarrow> 0
              | Some reqs \<Rightarrow> if reqs \<noteq> [] then years_loop reqs 0 else 0),
           required_education =
             (case job_requirements job of
                None \<Rightarrow> []
              | Some reqs \<Rightarrow> if reqs \<noteq> [] then education_loop reqs [] else []),
           full_description = (case description job of None \<Rightarrow> [] | Some d \<Rightarrow> d)\<rparr>)"

section \<open>Resume directory parser\<close>

record resume_data =
  resume_name :: string
  email :: string
  phone :: string
  skills :: "string list"
  education :: string
  experience :: string
  full_text :: string








section \<open>The overlap formula of the specification\<close>

text \<open>
  The specification's word overlap of two token sets,
  \<open>|A \<inter> B| / (|A| + |B| - |A \<inter> B|)\<close>, to compare with the division of the
  fallback path.
\<close>

definition spec_jaccard :: "string set \<Rightarrow> string set \<Rightarrow> real" where
  "spec_jaccard A B =
     real (card (A \<inter> B)) / (real (card A) + real (card B) - real (card (A \<inter> B)))"

section \<open>Properties of the calibration\<close>





section \<open>Properties of the experience axis\<close>

text \<open>
  C8. For a fixed positive number of required years the step function is monotone in
  the estimated years, and its value is one of 1.0, 0.95, 0.9, 0.85, 0.8, 0.75, so at
  least 0.75, with 1.0 at or above the required years.
\<close>

theorem experience_score_monotone:
  assumes "0 < required_years" and "e1 \<le> e2"
  shows "experience_score e1 required_years \<le> experience_score e2 required_years
         \<and> 0.75 \<le> experience_score e1 required_years
         \<and> experience_score e1 required_years \<in> {1.0, 0.95, 0.9, 0.85, 0.8, 0.75}
         \<and> (required_years \<le> e1 \<longrightarrow> experience_score e1 required_years = 1.0)"
  using assms by (auto simp add: experience_score_def)

theorem experience_score_monotone_witness:
  "(0::real) < 5 \<and> (2::real) \<le> 4
   \<and> experience_score 2 5 = 0.85 \<and> experience_score 4 5 = 0.95
   \<and> experience_score 2 5 \<le> experience_score 4 5"
proof -
  have "(0::real) < 5" and "(2::real) \<le> 4" by simp_all
  from experience_score_monotone [OF this] show ?thesis
    by (simp add: experience_score_def)
qed








section \<open>Properties of the similarity backend\<close>

lemma jaccard_denominator:
  assumes "finite A" and "finite B" and "B \<noteq> {}"
  shows "0 < int (card A) + int (card B) - int (card (A \<inter> B))"
    and "int (card (A \<inter> B)) \<le> int (card A) + int (card B) - int (card (A \<inter> B))"
proof -
  have a: "card (A \<inter> B) \<le> card A"
    using assms(1) by (simp add: card_mono)
  have b: "card (A \<inter> B) \<le> card B"
    using assms(2) by (simp add: card_mono)
  have "0 < card B"
    using assms(2,3) by (simp add: card_gt_0_iff)
  with a show "0 < int (card A) + int (card B) - int (card (A \<inter> B))" by linarith
  from a b show "int (card (A \<inter> B)) \<le> int (card A) + int (card B) - int (card (A \<inter> B))"
    by linarith
qed

lemma fallback_similarity_value:
  assumes "text1 \<noteq> []" and "text2 \<noteq> []"
  shows "calculate_semantic_similarity None text1 text2 =
           Inr (if set (findall_words (lower text1)) = {} \<or> set (findall_words (lower text2)) = {}
                then 0.8
                else min (0.75 + 0.25 * spec_jaccard (set (findall_words (lower text1)))
                                         (set (findall_words (lower text2)))) 1)"
proof (cases "set (findall_words (lower text1)) = {} \<or> set (findall_words (lower text2)) = {}")
  case True
  then show ?thesis using assms by (auto simp add: calculate_semantic_similarity_def Let_def)
next
  case False
  let ?A = "set (findall_words (lower text1))" and ?B = "set (findall_words (lower text2))"
  have "0 < int (card ?A) + int (card ?B) - int (card (?A \<inter> ?B))"
    using False jaccard_denominator(1) [of ?A ?B] by simp
  then have d: "int (card ?A) + int (card ?B) - int (card (?A \<inter> ?B)) \<noteq> 0"
    by simp
  show ?thesis
    unfolding calculate_semantic_similarity_def Let_def spec_jaccard_def
    using False assms d by (simp add: mult.commute)
qed

lemma spec_jaccard_range:
  assumes "finite A" and "finite B" and "B \<noteq> {}"
  shows "0 \<le> spec_jaccard A B \<and> spec_jaccard A B \<le> 1"
proof -
  let ?d = "int (card A) + int (card B) - int (card (A \<inter> B))"
  have e: "real (card A) + real (card B) - real (card (A \<inter> B)) = real_of_int ?d"
    by simp
  have "0 < real_of_int ?d"
    using jaccard_denominator(1) [OF assms] by (simp only: of_int_0_less_iff)
  moreover have "real_of_int (int (card (A \<inter> B))) \<le> real_of_int ?d"
    using jaccard_denominator(2) [OF assms] by (simp only: of_int_le_iff)
  then have "real (card (A \<inter> B)) \<le> real_of_int ?d"
    by simp
  ultimately show ?thesis
    unfolding spec_jaccard_def e by simp
qed

lemma similarity_value:
  "calculate_semantic_similarity model text1 text2 =
     Inr (if text1 = [] \<or> text2 = [] then 0.8
          else case model of
            None \<Rightarrow>
              if set (findall_words (lower text1)) = {} \<or> set (findall_words (lower text2)) = {}
              then 0.8
              else min (0.75 + 0.25 * spec_jaccard (set (findall_words (lower text1)))
                                       (set (findall_words (lower text2)))) 1
          | Some m \<Rightarrow> (case m text1 text2 of Inr c \<Rightarrow> min (0.75 + c * 0.25) 1 | Inl e \<Rightarrow> 0.8))"
proof (cases "text1 = [] \<or> text2 = []")
  case True
  then show ?thesis by (auto simp add: calculate_semantic_similarity_def)
next
  case False
  then have ne: "text1 \<noteq> []" "text2 \<noteq> []" by simp_all
  show ?thesis
  proof (cases model)
    case None
    with fallback_similarity_value [OF ne] ne show ?thesis by simp
  next
    case (Some m)
    with ne show ?thesis
      by (cases "m text1 text2") (simp_all add: calculate_semantic_similarity_def)
  qed
qed

lemma similarity_eq:
  "similarity model text1 text2 =
     (if text1 = [] \<or> text2 = [] then 0.8
      else case model of
        None \<Rightarrow>
          if set (findall_words (lower text1)) = {} \<or> set (findall_words (lower text2)) = {}
          then 0.8
          else min (0.75 + 0.25 * spec_jaccard (set (findall_words (lower text1)))
                                   (set (findall_words (lower text2)))) 1
      | Some m \<Rightarrow> (case m text1 text2 of Inr c \<Rightarrow> min (0.75 + c * 0.25) 1 | Inl e \<Rightarrow> 0.8))"
  unfolding similarity_def similarity_value by simp


lemma fallback_similarity_range:
  "0.75 \<le> similarity None text1 text2 \<and> similarity None text1 text2 \<le> 1"
proof -
  have "0 \<le> spec_jaccard (set (findall_words (lower text1))) (set (findall_words (lower text2)))"
    if "set (findall_words (lower text2)) \<noteq> {}"
    using that spec_jaccard_range by simp
  then show ?thesis
    unfolding similarity_eq by (auto simp add: min_def)
qed





section \<open>Properties of the skills axis\<close>

lemma best_resume_skill_init: "snd best \<le> snd (best_resume_skill model j rs best)"
proof (induction rs arbitrary: best)
  case Nil
  then show ?case by simp
next
  case (Cons r rs)
  obtain bm bs where b: "best = (bm, bs)" by (cases best)
  show ?case
  proof (cases "similarity model j r > bs")
    case True
    with Cons [of "(Some r, similarity model j r)"] b show ?thesis by simp
  next
    case False
    with Cons [of "(bm, bs)"] b show ?thesis by simp
  qed
qed

lemma best_resume_skill_ge:
  "r \<in> set rs \<Longrightarrow> similarity model j r \<le> snd (best_resume_skill model j rs best)"
proof (induction rs arbitrary: best)
  case Nil
  then show ?case by simp
next
  case (Cons a rs)
  obtain bm bs where b: "best = (bm, bs)" by (cases best)
  show ?case
  proof (cases "r = a")
    case True
    show ?thesis
    proof (cases "similarity model j a > bs")
      case True
      with best_resume_skill_init [of "(Some a, similarity model j a)" model j rs] b \<open>r = a\<close>
      show ?thesis by simp
    next
      case False
      with best_resume_skill_init [of "(bm, bs)" model j rs] b \<open>r = a\<close>
      show ?thesis by simp
    qed
  next
    case False
    with Cons.prems have "r \<in> set rs" by simp
    from Cons.IH [OF this] b show ?thesis by (simp add: Let_def)
  qed
qed

lemma find_semantic_matches_keys:
  "fst ` set (find_semantic_matches model rs direct js) =
     {j \<in> set js. j \<notin> set direct \<and> 0.6 \<le> snd (best_resume_skill model j rs (None, 0))}"
  by (induction js) (auto simp add: Let_def)

lemma skills_match_fields:
  fixes rskills jskills :: "string list" and model :: "backend option"
  assumes "jskills \<noteq> []"
  defines "direct \<equiv> filter (\<lambda>j. j \<in> set (map lower rskills)) (map lower jskills)"
  defines "semantic \<equiv> find_semantic_matches model (map lower rskills) direct (map lower jskills)"
  shows "direct_matches (calculate_skills_match model rskills jskills) = direct"
    and "semantic_matches (calculate_skills_match model rskills jskills) = semantic"
    and "missing_skills (calculate_skills_match model rskills jskills) =
           filter (\<lambda>j. j \<notin> set direct \<and> j \<notin> fst ` set semantic) (map lower jskills)"
    and "score (calculate_skills_match model rskills jskills) =
           min 1 (0.8 + ((real (length direct) + sum_list (map (\<lambda>match. snd (snd match)) semantic))
                          / real (length jskills)) * 0.2)"
proof -
  have ex: "list_ex (\<lambda>match. j = fst match) semantic \<longleftrightarrow> j \<in> fst ` set semantic" for j
    by (auto simp add: list_ex_iff)
  show "direct_matches (calculate_skills_match model rskills jskills) = direct"
    using assms(1) by (simp add: calculate_skills_match_def Let_def direct_def)
  show "semantic_matches (calculate_skills_match model rskills jskills) = semantic"
    using assms(1) by (simp add: calculate_skills_match_def Let_def direct_def semantic_def)
  show "missing_skills (calculate_skills_match model rskills jskills) =
           filter (\<lambda>j. j \<notin> set direct \<and> j \<notin> fst ` set semantic) (map lower jskills)"
    unfolding ex [symmetric]
    using assms(1) by (simp add: calculate_skills_match_def Let_def direct_def semantic_def)
  show "score (calculate_skills_match model rskills jskills) =
           min 1 (0.8 + ((real (length direct) + sum_list (map (\<lambda>match. snd (snd match)) semantic))
                          / real (length jskills)) * 0.2)"
    using assms(1) by (simp add: calculate_skills_match_def Let_def direct_def semantic_def)
qed

text \<open>
  C6. In fallback mode every similarity is at least 0.75, hence at least the threshold
  0.6; so when the resume has a skill and the job requires one, no required skill is
  missing: each is a direct match or a semantic match.
\<close>

theorem fallback_no_missing_skills:
  "0.75 \<le> similarity None a b
   \<and> (rskills \<noteq> [] \<and> jskills \<noteq> [] \<longrightarrow>
        missing_skills (calculate_skills_match None rskills jskills) = []
        \<and> (\<forall>j \<in> set (map lower jskills).
              j \<in> set (direct_matches (calculate_skills_match None rskills jskills))
              \<or> j \<in> fst ` set (semantic_matches (calculate_skills_match None rskills jskills))))"
proof -
  have covered: "j \<in> set direct \<or> j \<in> fst ` set (find_semantic_matches None (map lower rs) direct js)"
    if "rs \<noteq> []" and "j \<in> set js" for rs direct js j
  proof -
    from that(1) obtain r where "r \<in> set (map lower rs)" by (cases rs) auto
    from best_resume_skill_ge [OF this, of None j "(None, 0)"]
      fallback_similarity_range [of j r]
    have "0.6 \<le> snd (best_resume_skill None j (map lower rs) (None, 0))" by simp
    with that(2) show ?thesis unfolding find_semantic_matches_keys by simp
  qed
  have "missing_skills (calculate_skills_match None rskills jskills) = []
        \<and> (\<forall>j \<in> set (map lower jskills).
              j \<in> set (direct_matches (calculate_skills_match None rskills jskills))
              \<or> j \<in> fst ` set (semantic_matches (calculate_skills_match None rskills jskills)))"
    if r: "rskills \<noteq> []" and j: "jskills \<noteq> []"
    unfolding skills_match_fields(1,2,3) [OF j] filter_empty_conv
    using covered [OF r] by blast
  then show ?thesis using fallback_similarity_range [of a b] by blast
qed

theorem fallback_no_missing_skills_witness:
  "[''python'', ''node''] \<noteq> [] \<and> [''Python'', ''React''] \<noteq> []
   \<and> missing_skills (calculate_skills_match None [''python'', ''node''] [''Python'', ''React'']) = []"
  using fallback_no_missing_skills [of "[]" "[]" "[''python'', ''node'']" "[''Python'', ''React'']"]
  by simp




lemma find_semantic_matches_append:
  "find_semantic_matches model rs direct (js @ ks) =
     find_semantic_matches model rs direct js @ find_semantic_matches model rs direct ks"
  by (induction js) (simp_all add: Let_def)

lemma find_semantic_matches_cong:
  "\<forall>j \<in> set js. j \<in> set d1 \<longleftrightarrow> j \<in> set d2 \<Longrightarrow>
   find_semantic_matches model rs d1 js = find_semantic_matches model rs d2 js"
  by (induction js) (simp_all add: Let_def)

lemma skills_formula_mono:
  fixes t :: real and n :: nat
  assumes "0 < n"
  shows "min 1 (0.8 + (t / real n) * 0.2) \<le> min 1 (0.8 + ((t + 1) / real (n + 1)) * 0.2)"
proof (cases "t \<le> real n")
  case True
  have m: "min 1 (0.8 + a * 0.2) \<le> min 1 (0.8 + b * 0.2)" if "a \<le> b" for a b :: real
    using that by (auto simp add: min_def)
  have "t * real (n + 1) \<le> (t + 1) * real n"
    using True by (simp add: algebra_simps)
  then have "t / real n \<le> (t + 1) / real (n + 1)"
    using assms by (simp add: frac_le_eq divide_le_eq pos_divide_le_eq field_simps)
  then show ?thesis by (rule m)
next
  case False
  have m: "min 1 (0.8 + a * 0.2) \<le> min 1 (0.8 + b * 0.2)" if "1 < b" for a b :: real
    using that by (auto simp add: min_def)
  from False have "1 < (t + 1) / real (n + 1)"
    by simp
  then show ?thesis by (rule m)
qed

text \<open>
  C7. Appending to the required skills a skill that the resume has, compared in lower
  case, does not decrease the skills score.
\<close>

theorem skills_score_monotone:
  assumes "lower x \<in> set (map lower rskills)"
  shows "score (calculate_skills_match model rskills jskills)
           \<le> score (calculate_skills_match model rskills (jskills @ [x]))"
proof (cases "jskills = []")
  case True
  have "score (calculate_skills_match model rskills [x]) = 1"
    using assms by (simp add: calculate_skills_match_def Let_def)
  with True show ?thesis by (simp add: calculate_skills_match_def)
next
  case False
  let ?R = "map lower rskills" and ?J = "map lower jskills"
  let ?D = "filter (\<lambda>j. j \<in> set ?R) ?J"
  let ?S = "find_semantic_matches model ?R ?D ?J"
  define t where "t = real (length ?D) + sum_list (map (\<lambda>match. snd (snd match)) ?S)"
  have ne: "jskills @ [x] \<noteq> []" by simp
  have D': "filter (\<lambda>j. j \<in> set ?R) (map lower (jskills @ [x])) = ?D @ [lower x]"
    using assms by simp
  have "find_semantic_matches model ?R (?D @ [lower x]) (?J @ [lower x]) =
      find_semantic_matches model ?R (?D @ [lower x]) ?J"
    by (simp add: find_semantic_matches_append)
  also have "\<dots> = ?S"
    by (rule find_semantic_matches_cong) (use assms in auto)
  finally have S': "find_semantic_matches model ?R (?D @ [lower x]) (map lower (jskills @ [x])) = ?S"
    by simp
  have t': "real (length (?D @ [lower x])) + sum_list (map (\<lambda>match. snd (snd match)) ?S) = t + 1"
    by (simp add: t_def)
  have n': "length (jskills @ [x]) = length jskills + 1"
    by simp
  have s1: "score (calculate_skills_match model rskills jskills)
      = min 1 (0.8 + (t / real (length jskills)) * 0.2)"
    unfolding skills_match_fields(4) [OF False] t_def ..
  have s2: "score (calculate_skills_match model rskills (jskills @ [x]))
      = min 1 (0.8 + ((t + 1) / real (length jskills + 1)) * 0.2)"
    unfolding skills_match_fields(4) [OF ne] D' S' t' n' ..
  have "0 < length jskills" using False by simp
  then show ?thesis
    unfolding s1 s2 by (rule skills_formula_mono)
qed

theorem skills_score_monotone_witness:
  "lower ''Python'' \<in> set (map lower [''python'', ''node''])
   \<and> score (calculate_skills_match None [''python'', ''node''] [''react''])
       \<le> score (calculate_skills_match None [''python'', ''node''] ([''react''] @ [''Python'']))"
proof -
  have h: "lower ''Python'' \<in> set (map lower [''python'', ''node''])"
    by code_simp
  from skills_score_monotone [OF h] h show ?thesis by blast
qed

section \<open>Properties of the job requirements parser\<close>

















text \<open>
  C3. On a single requirement line that names a bachelor's degree and a PhD,
  \<open>extract_education_level\<close> answers \<open>bachelor\<close>, its first test, and the profile's
  required education is \<open>bachelor\<close>; with the two degrees on two lines it is \<open>phd\<close>.
\<close>

theorem required_education_lowest_on_line:
  "extract_education_level ''Bachelor's degree or PhD in Computer Science'' = ''bachelor''
   \<and> required_education (parse_job_requirements (Some
        \<lparr>job_title = None, company = None, job_skills = None,
         job_requirements = Some [''Bachelor's degree or PhD in Computer Science''],
         description = None\<rparr>)) = ''bachelor''
   \<and> required_education (parse_job_requirements (Some
        \<lparr>job_title = None, company = None, job_skills = None,
         job_requirements = Some [''Bachelor's degree'', ''PhD in Computer Science''],
         description = None\<rparr>)) = ''phd''"
proof -
  have "extract_education_level ''Bachelor's degree or PhD in Computer Science'' = ''bachelor''"
    "extract_education_level ''Bachelor's degree'' = ''bachelor''"
    "extract_education_level ''PhD in Computer Science'' = ''phd''"
    by code_simp+
  then show ?thesis
    by (simp add: parse_job_requirements_def Let_def)
qed

section \<open>Properties of the resume directory parser\<close>





end
